theory Spec2Isabelle
  imports Main
begin

section \<open>Data model\<close>

text \<open>
  The provider identities are the three tags that the service's dispatch switch and the
  status object name: \<^verbatim>\<open>'groq'\<close>, \<^verbatim>\<open>'openai'\<close>, \<^verbatim>\<open>'gemini'\<close>.
\<close>

datatype provider = Groq | OpenAI | Gemini

text \<open>
  A provider call rejects with a value \<^verbatim>\<open>error\<close> of which the service reads two
  properties, \<^verbatim>\<open>error.message\<close> and \<^verbatim>\<open>error.limitInfo\<close>. The limit information
  is an object (always truthy in \<^verbatim>\<open>if (error.limitInfo)\<close>) or absent.
\<close>

record limit_info =
  reason :: string
  retryAfter :: "nat option"

record provider_error =
  message :: string
  limitInfo :: "limit_info option"

text \<open>
  Every \<^verbatim>\<open>throw new Error(...)\<close> of the service is one constructor, which carries the
  message of the thrown error: the empty candidate list, the failure of the last
  candidate, and the statement after the loop.
\<close>

datatype error =
    NoProvidersAvailable string
  | AllProvidersFailed string
  | LoopExhausted string

fun errorMessage :: "error \<Rightarrow> string" where
  "errorMessage (NoProvidersAvailable m) = m"
| "errorMessage (AllProvidersFailed m) = m"
| "errorMessage (LoopExhausted m) = m"

text \<open>
  What a call does to its collaborators, in the order it happens: the provider calls and
  the limit warnings. Console output is not part of the model.
\<close>

datatype event =
    EvaluateCall provider
  | GenerateCall provider
  | ShowLimitWarning limit_info "provider list"

fun calls :: "event list \<Rightarrow> provider list" where
  "calls [] = []"
| "calls (EvaluateCall p # evs) = p # calls evs"
| "calls (GenerateCall p # evs) = p # calls evs"
| "calls (ShowLimitWarning li rs # evs) = calls evs"

fun warnings :: "event list \<Rightarrow> (limit_info \<times> provider list) list" where
  "warnings [] = []"
| "warnings (EvaluateCall p # evs) = warnings evs"
| "warnings (GenerateCall p # evs) = warnings evs"
| "warnings (ShowLimitWarning li rs # evs) = (li, rs) # warnings evs"


section \<open>The provider registry (\<^verbatim>\<open>AIProviderManager\<close>)\<close>

text \<open>
  Modelled from the spec: the state of \<^verbatim>\<open>AIProviderManager\<close>, whose source file
  (\<^verbatim>\<open>./aiProviderManager\<close>) is not among the sources. Sections 3 and 4.1 of the
  specification give it a credential per identity, the process-wide set of failed
  providers and the forced-provider override.
\<close>

record registry =
  credentials :: "provider set"
  failedProviders :: "provider set"
  forcedProvider :: "provider option"

text \<open>
  Modelled from the spec: \<^verbatim>\<open>AIProviderManager.hasApiKeys\<close>, "returns whether a
  credential is configured per provider".
\<close>

definition mgr_hasApiKeys :: "registry \<Rightarrow> provider \<Rightarrow> bool" where
  "mgr_hasApiKeys s p = (p \<in> credentials s)"

text \<open>
  Modelled from the spec: \<^verbatim>\<open>AIProviderManager.isProviderAvailable\<close>, "true iff
  credential present and identity not in FailedProviderSet".
\<close>

definition isProviderAvailable :: "provider \<Rightarrow> registry \<Rightarrow> bool" where
  "isProviderAvailable p s = (p \<in> credentials s \<and> p \<notin> failedProviders s)"

text \<open>
  Modelled from the spec: \<^verbatim>\<open>markFailed\<close>, "idempotently adds identity to
  FailedProviderSet".
\<close>

definition markFailed :: "provider \<Rightarrow> registry \<Rightarrow> registry" where
  "markFailed p s = s\<lparr>failedProviders := insert p (failedProviders s)\<rparr>"

text \<open>
  Modelled from the spec: \<^verbatim>\<open>AIProviderManager.resetFailedProviders\<close>, "clears
  FailedProviderSet entirely".
\<close>

definition mgr_resetFailedProviders :: "registry \<Rightarrow> registry" where
  "mgr_resetFailedProviders s = s\<lparr>failedProviders := {}\<rparr>"

text \<open>
  Modelled from the spec: \<^verbatim>\<open>AIProviderManager.forceProvider(identity | 'auto' | null)\<close>;
  a specific identity sets the override, \<^verbatim>\<open>'auto'\<close> and \<^verbatim>\<open>null\<close> restore the
  default.
\<close>

datatype forced_choice = Identity provider | Auto | Null

fun mgr_forceProvider :: "forced_choice \<Rightarrow> registry \<Rightarrow> registry" where
  "mgr_forceProvider (Identity p) s = s\<lparr>forcedProvider := Some p\<rparr>"
| "mgr_forceProvider Auto s = s\<lparr>forcedProvider := None\<rparr>"
| "mgr_forceProvider Null s = s\<lparr>forcedProvider := None\<rparr>"

text \<open>
  Modelled from the spec: \<^verbatim>\<open>AIProviderManager.getProviderStatus\<close>, the "full status
  snapshot, computed fresh each call", with the three fields \<^verbatim>\<open>available\<close>,
  \<^verbatim>\<open>hasKey\<close> and \<^verbatim>\<open>failed\<close> per identity.
\<close>

record provider_status =
  available :: bool
  hasKey :: bool
  failed :: bool

definition mgr_getProviderStatus :: "registry \<Rightarrow> provider \<Rightarrow> provider_status" where
  "mgr_getProviderStatus s p =
     \<lparr>available = isProviderAvailable p s,
      hasKey = mgr_hasApiKeys s p,
      failed = (p \<in> failedProviders s)\<rparr>"

text \<open>
  The provider calls of \<^verbatim>\<open>AIProviderManager\<close> are parameters of the model. They are
  static methods of the class that owns the registry, so a call gets the registry and
  returns it, possibly changed, with either the rejection or the result. The request
  and response types come from \<^verbatim>\<open>./types\<close> and are opaque to the service.
\<close>

type_synonym 'a attempt = "registry \<Rightarrow> (provider_error + 'a) \<times> registry"

record ('q, 'r) manager =
  evaluateWithGroq :: "'q \<Rightarrow> 'r attempt"
  evaluateWithOpenAI :: "'q \<Rightarrow> 'r attempt"
  evaluateWithGemini :: "'q \<Rightarrow> 'r attempt"
  generateRawText :: "string \<Rightarrow> provider \<Rightarrow> string attempt"


section \<open>The evaluation service (\<^verbatim>\<open>AIEvaluationService\<close>)\<close>

record api_keys =
  gemini :: bool

text \<open>\<^verbatim>\<open>hasApiKeys\<close>: a read that returns the registry as it found it.\<close>

definition hasApiKeys :: "registry \<Rightarrow> api_keys \<times> registry" where
  "hasApiKeys s = (\<lparr>gemini = mgr_hasApiKeys s Gemini\<rparr>, s)"

text \<open>
  \<^verbatim>\<open>forceProvider(provider: 'gemini' | 'auto' | null)\<close>: the parameter type of the
  service admits one identity only.
\<close>

datatype force_arg = ForceGemini | ForceAuto | ForceNull

fun forcedIdentity :: "force_arg \<Rightarrow> forced_choice" where
  "forcedIdentity ForceGemini = Identity Gemini"
| "forcedIdentity ForceAuto = Auto"
| "forcedIdentity ForceNull = Null"

definition forceProvider :: "force_arg \<Rightarrow> registry \<Rightarrow> registry" where
  "forceProvider provider s = mgr_forceProvider (forcedIdentity provider) s"

definition getProviderStatus :: "registry \<Rightarrow> (provider \<Rightarrow> provider_status) \<times> registry" where
  "getProviderStatus s = (mgr_getProviderStatus s, s)"

definition resetFailedProviders :: "registry \<Rightarrow> registry" where
  "resetFailedProviders s = mgr_resetFailedProviders s"

text \<open>
  The candidate list. Both entry points build it with the same two statements:
  \<^verbatim>\<open>providerPriority\<close> holds the single entry for gemini with its \<^verbatim>\<open>available\<close>
  flag, and \<^verbatim>\<open>availableProviders\<close> filters on that flag. An entry is a pair of the
  name and the flag.
\<close>

definition providerPriority :: "registry \<Rightarrow> (provider \<times> bool) list" where
  "providerPriority s =
     (case hasApiKeys s of
        (availableKeys, s1) \<Rightarrow>
          [(Gemini, gemini availableKeys \<and> isProviderAvailable Gemini s1)])"

definition availableProviders :: "registry \<Rightarrow> (provider \<times> bool) list" where
  "availableProviders s = filter snd (providerPriority s)"

text \<open>\<^verbatim>\<open>showLimitWarning\<close> is called only when the rejection carries limit information.\<close>

definition limitWarning :: "provider_error \<Rightarrow> provider list \<Rightarrow> event list" where
  "limitWarning err remainingProviders =
     (case limitInfo err of
        Some li \<Rightarrow> [ShowLimitWarning li remainingProviders]
      | None \<Rightarrow> [])"

text \<open>The switch on \<^verbatim>\<open>provider.name\<close> in \<^verbatim>\<open>evaluateWithBestAvailable\<close>.\<close>

fun evaluateCall :: "('q, 'r) manager \<Rightarrow> 'q \<Rightarrow> provider \<Rightarrow> 'r attempt" where
  "evaluateCall A request Groq = evaluateWithGroq A request"
| "evaluateCall A request OpenAI = evaluateWithOpenAI A request"
| "evaluateCall A request Gemini = evaluateWithGemini A request"

text \<open>
  The loop of \<^verbatim>\<open>evaluateWithBestAvailable\<close>, from index \<open>i\<close>. The result is what the
  call returns or throws, the registry afterwards, and the events in order.
\<close>

function evaluateLoop ::
  "('q, 'r) manager \<Rightarrow> 'q \<Rightarrow> (provider \<times> bool) list \<Rightarrow> nat \<Rightarrow> registry
     \<Rightarrow> (error + 'r) \<times> registry \<times> event list" where
  "evaluateLoop A request ps i s =
     (if i < length ps then
        (let provider = ps ! i;
             remainingProviders = map fst (drop (i + 1) ps)
         in case evaluateCall A request (fst provider) s of
              (Inr response, s') \<Rightarrow> (Inr response, s', [EvaluateCall (fst provider)])
            | (Inl err, s') \<Rightarrow>
                (let warn = limitWarning err remainingProviders
                 in if i = length ps - 1
                    then (Inl (AllProvidersFailed
                                 (''All AI providers failed. Last error: '' @ message err)),
                          s', EvaluateCall (fst provider) # warn)
                    else (case evaluateLoop A request ps (i + 1) s' of
                            (res, s'', evs) \<Rightarrow>
                              (res, s'', EvaluateCall (fst provider) # warn @ evs))))
      else (Inl (LoopExhausted ''Unexpected error: No AI providers available''), s, []))"
  by pat_completeness auto
termination
  by (relation "measure (\<lambda>(A, request, ps, i, s). length ps - i)") auto

declare evaluateLoop.simps [simp del]

definition evaluateWithBestAvailable ::
  "('q, 'r) manager \<Rightarrow> 'q \<Rightarrow> registry \<Rightarrow> (error + 'r) \<times> registry \<times> event list" where
  "evaluateWithBestAvailable A request s =
     (if length (availableProviders s) = 0
      then (Inl (NoProvidersAvailable
                   ''No AI providers available. Please add API keys from Groq, OpenAI, or Gemini in Settings.''),
            s, [])
      else evaluateLoop A request (availableProviders s) 0 s)"

text \<open>The loop of \<^verbatim>\<open>generateContentWithBestAvailable\<close>, from index \<open>i\<close>.\<close>

function generateLoop ::
  "('q, 'r) manager \<Rightarrow> string \<Rightarrow> (provider \<times> bool) list \<Rightarrow> nat \<Rightarrow> registry
     \<Rightarrow> (error + string) \<times> registry \<times> event list" where
  "generateLoop A prompt ps i s =
     (if i < length ps then
        (let provider = ps ! i;
             remainingProviders = map fst (drop (i + 1) ps)
         in case generateRawText A prompt (fst provider) s of
              (Inr content, s') \<Rightarrow> (Inr content, s', [GenerateCall (fst provider)])
            | (Inl err, s') \<Rightarrow>
                (let warn = limitWarning err remainingProviders
                 in if i = length ps - 1
                    then (Inl (AllProvidersFailed
                                 (''All AI providers failed. Last error: '' @ message err)),
                          s', GenerateCall (fst provider) # warn)
                    else (case generateLoop A prompt ps (i + 1) s' of
                            (res, s'', evs) \<Rightarrow>
                              (res, s'', GenerateCall (fst provider) # warn @ evs))))
      else (Inl (LoopExhausted ''All AI providers failed for content generation.''), s, []))"
  by pat_completeness auto
termination
  by (relation "measure (\<lambda>(A, prompt, ps, i, s). length ps - i)") auto

declare generateLoop.simps [simp del]

definition generateContentWithBestAvailable ::
  "('q, 'r) manager \<Rightarrow> string \<Rightarrow> registry \<Rightarrow> (error + string) \<times> registry \<times> event list" where
  "generateContentWithBestAvailable A prompt s =
     (if length (availableProviders s) = 0
      then (Inl (NoProvidersAvailable
                   ''No AI providers available. Please check your API keys configuration.''),
            s, [])
      else generateLoop A prompt (availableProviders s) 0 s)"


section \<open>The fallback loop as a recursion on the candidate list\<close>

text \<open>
  Both loops walk the candidate list from the front. \<open>fallback\<close> is that walk as a
  recursion on the list, with the provider call, the event of a call and the message of
  the statement after the loop as parameters; the two loops are shown equal to it below.
\<close>

fun fallback ::
  "(provider \<Rightarrow> 'a attempt) \<Rightarrow> (provider \<Rightarrow> event) \<Rightarrow> string \<Rightarrow> (provider \<times> bool) list
     \<Rightarrow> registry \<Rightarrow> (error + 'a) \<times> registry \<times> event list" where
  "fallback call ev exhausted [] s = (Inl (LoopExhausted exhausted), s, [])"
| "fallback call ev exhausted (c # cs) s =
     (case call (fst c) s of
        (Inr r, s') \<Rightarrow> (Inr r, s', [ev (fst c)])
      | (Inl err, s') \<Rightarrow>
          (if cs = []
           then (Inl (AllProvidersFailed
                        (''All AI providers failed. Last error: '' @ message err)),
                 s', ev (fst c) # limitWarning err [])
           else (case fallback call ev exhausted cs s' of
                   (res, s'', evs) \<Rightarrow>
                     (res, s'', ev (fst c) # limitWarning err (map fst cs) @ evs))))"

text \<open>
  The rejections of the attempts of one call, in order, up to the first attempt that
  succeeds: each attempt runs on the registry that the attempt before it left.
\<close>

fun attemptErrors :: "(provider \<Rightarrow> 'a attempt) \<Rightarrow> (provider \<times> bool) list \<Rightarrow> registry
     \<Rightarrow> provider_error list" where
  "attemptErrors call [] s = []"
| "attemptErrors call (c # cs) s =
     (case call (fst c) s of
        (Inr r, s') \<Rightarrow> []
      | (Inl err, s') \<Rightarrow> err # attemptErrors call cs s')"

text \<open>The position and the result of the first attempt that succeeds, if any.\<close>

fun firstSuccess :: "(provider \<Rightarrow> 'a attempt) \<Rightarrow> (provider \<times> bool) list \<Rightarrow> registry
     \<Rightarrow> (nat \<times> 'a) option" where
  "firstSuccess call [] s = None"
| "firstSuccess call (c # cs) s =
     (case call (fst c) s of
        (Inr r, s') \<Rightarrow> Some (0, r)
      | (Inl err, s') \<Rightarrow>
          (case firstSuccess call cs s' of
             None \<Rightarrow> None
           | Some (n, r) \<Rightarrow> Some (Suc n, r)))"

text \<open>
  The limit warnings that the specification asks for: one for each failed attempt whose
  rejection carries limit information, with that information and the names of the
  candidates after it, in order.
\<close>

fun expectedWarnings :: "(provider \<times> bool) list \<Rightarrow> provider_error list
     \<Rightarrow> (limit_info \<times> provider list) list" where
  "expectedWarnings (c # cs) (err # errs) =
     (case limitInfo err of
        Some li \<Rightarrow> (li, map fst cs) # expectedWarnings cs errs
      | None \<Rightarrow> expectedWarnings cs errs)"
| "expectedWarnings cs errs = []"

text \<open>
  Comparing the two entry points: what a provider call did apart from the value of a
  success, a \<^verbatim>\<open>generateRawText\<close> call read as the evaluation call of the same
  provider, and two failures of the same kind (the messages of the empty-list failure
  differ in their wording between the entry points).
\<close>

definition outcomeShape :: "(provider_error + 'a) \<times> registry \<Rightarrow> provider_error option \<times> registry" where
  "outcomeShape out = (case out of (Inl err, s') \<Rightarrow> (Some err, s') | (Inr r, s') \<Rightarrow> (None, s'))"

fun asEvaluate :: "event \<Rightarrow> event" where
  "asEvaluate (GenerateCall p) = EvaluateCall p"
| "asEvaluate (EvaluateCall p) = EvaluateCall p"
| "asEvaluate (ShowLimitWarning li rs) = ShowLimitWarning li rs"

fun sameResult :: "error + 'a \<Rightarrow> error + 'b \<Rightarrow> bool" where
  "sameResult (Inr x) (Inr y) = True"
| "sameResult (Inl (NoProvidersAvailable m)) (Inl (NoProvidersAvailable m')) = True"
| "sameResult (Inl (AllProvidersFailed m)) (Inl (AllProvidersFailed m')) = (m = m')"
| "sameResult (Inl (LoopExhausted m)) (Inl (LoopExhausted m')) = True"
| "sameResult x y = False"


section \<open>Provider calls and the failed set\<close>






section \<open>Example inputs\<close>

text \<open>
  The registries, the candidate list and the managers on which the theorems below are
  evaluated. The calls of \<open>failingManager\<close>, \<open>mixedManager\<close> and \<open>otherManager\<close>
  return the registry as they got it; \<open>otherManager\<close> has the gemini calls of
  \<open>mixedManager\<close> and other calls for groq and openai. The calls of \<open>markingManager\<close>
  put their provider into the failed set before they reject.
\<close>

definition timeoutError :: provider_error where
  "timeoutError = \<lparr>message = ''timeout'', limitInfo = None\<rparr>"

definition quotaInfo :: limit_info where
  "quotaInfo = \<lparr>reason = ''quota exceeded'', retryAfter = Some 60\<rparr>"

definition quotaError :: provider_error where
  "quotaError = \<lparr>message = ''rate limit'', limitInfo = Some quotaInfo\<rparr>"

definition failingManager :: "(string, string) manager" where
  "failingManager =
     \<lparr>evaluateWithGroq = (\<lambda>q s. (Inl timeoutError, s)),
      evaluateWithOpenAI = (\<lambda>q s. (Inl timeoutError, s)),
      evaluateWithGemini = (\<lambda>q s. (Inl timeoutError, s)),
      generateRawText = (\<lambda>q p s. (Inl timeoutError, s))\<rparr>"

definition mixedManager :: "(string, string) manager" where
  "mixedManager =
     \<lparr>evaluateWithGroq = (\<lambda>q s. (Inl quotaError, s)),
      evaluateWithOpenAI = (\<lambda>q s. (Inl timeoutError, s)),
      evaluateWithGemini = (\<lambda>q s. (Inr ''score 7'', s)),
      generateRawText = (\<lambda>q p s.
        case p of Groq \<Rightarrow> (Inl quotaError, s)
                | OpenAI \<Rightarrow> (Inl timeoutError, s)
                | Gemini \<Rightarrow> (Inr ''text'', s))\<rparr>"

definition markingManager :: "(string, string) manager" where
  "markingManager =
     \<lparr>evaluateWithGroq = (\<lambda>q s. (Inl quotaError, markFailed Groq s)),
      evaluateWithOpenAI = (\<lambda>q s. (Inl quotaError, markFailed OpenAI s)),
      evaluateWithGemini = (\<lambda>q s. (Inl quotaError, markFailed Gemini s)),
      generateRawText = (\<lambda>q p s. (Inl quotaError, markFailed p s))\<rparr>"

definition otherManager :: "(string, string) manager" where
  "otherManager =
     \<lparr>evaluateWithGroq = (\<lambda>q s. (Inr ''score 1'', markFailed Gemini s)),
      evaluateWithOpenAI = (\<lambda>q s. (Inl quotaError, markFailed OpenAI s)),
      evaluateWithGemini = (\<lambda>q s. (Inr ''score 7'', s)),
      generateRawText = (\<lambda>q p s. (Inr ''text'', s))\<rparr>"

definition readyRegistry :: registry where
  "readyRegistry = \<lparr>credentials = {Gemini}, failedProviders = {}, forcedProvider = None\<rparr>"

definition emptyRegistry :: registry where
  "emptyRegistry = \<lparr>credentials = {}, failedProviders = {}, forcedProvider = None\<rparr>"

definition threeCandidates :: "(provider \<times> bool) list" where
  "threeCandidates = [(Groq, True), (OpenAI, True), (Gemini, True)]"


section \<open>Properties of the loops\<close>

lemma warnings_append: "warnings (xs @ ys) = warnings xs @ warnings ys"
  by (induction xs rule: warnings.induct) simp_all

lemma calls_append: "calls (xs @ ys) = calls xs @ calls ys"
  by (induction xs rule: calls.induct) simp_all

lemma calls_limitWarning: "calls (limitWarning err rs) = []"
  by (simp add: limitWarning_def split: option.split)

lemma warnings_limitWarning:
  "warnings (limitWarning err rs) = (case limitInfo err of Some li \<Rightarrow> [(li, rs)] | None \<Rightarrow> [])"
  by (simp add: limitWarning_def split: option.split)

lemma fallback_not_exhausted:
  "cs \<noteq> [] \<Longrightarrow> fallback call ev x cs s = (res, t, evs) \<Longrightarrow> res \<noteq> Inl (LoopExhausted m)"
  by (induction cs arbitrary: s res t evs) (auto split: prod.splits sum.splits if_splits)

lemma fallback_warnings:
  assumes ev: "\<And>p evs. warnings (ev p # evs) = warnings evs"
  shows "fallback call ev x cs s = (res, t, evs) \<Longrightarrow>
         warnings evs = expectedWarnings cs (attemptErrors call cs s)"
proof (induction cs arbitrary: s res t evs)
  case Nil
  then show ?case by simp
next
  case (Cons c cs)
  then show ?case
    by (auto simp: ev warnings_append warnings_limitWarning
             split: prod.splits sum.splits option.splits if_splits)
qed

lemma fallback_all_fail:
  "cs \<noteq> [] \<Longrightarrow> length (attemptErrors call cs s) = length cs \<Longrightarrow>
   fallback call ev x cs s = (res, t, evs) \<Longrightarrow>
   res = Inl (AllProvidersFailed
            (''All AI providers failed. Last error: '' @ message (last (attemptErrors call cs s))))"
proof (induction cs arbitrary: s res t evs)
  case Nil
  then show ?case by simp
next
  case (Cons c cs)
  show ?case
  proof (cases "call (fst c) s")
    case (Pair out s')
    show ?thesis
    proof (cases out)
      case (Inr r)
      with Pair Cons.prems show ?thesis by simp
    next
      case (Inl err)
      show ?thesis
      proof (cases "cs = []")
        case True
        with Pair Inl Cons.prems show ?thesis by auto
      next
        case False
        have len: "length (attemptErrors call cs s') = length cs"
          using Cons.prems Pair Inl by simp
        then have ne: "attemptErrors call cs s' \<noteq> []"
          using False by auto
        obtain res' t' evs' where f: "fallback call ev x cs s' = (res', t', evs')"
          by (cases "fallback call ev x cs s'") auto
        from Cons.IH[OF False len f] Cons.prems(3) Pair Inl False f ne show ?thesis
          by simp
      qed
    qed
  qed
qed

lemma attemptErrors_length: "length (attemptErrors call cs s) \<le> length cs"
  by (induction cs arbitrary: s) (auto split: prod.splits sum.splits)

lemma firstSuccess_None:
  "(firstSuccess call cs s = None) = (length (attemptErrors call cs s) = length cs)"
proof (induction cs arbitrary: s)
  case Nil
  show ?case by simp
next
  case (Cons c cs)
  show ?case
  proof (cases "call (fst c) s")
    case (Pair out s')
    then show ?thesis
      using Cons.IH[of s'] by (cases out) (auto split: option.splits)
  qed
qed

lemma fallback_calls_failure:
  assumes ev: "\<And>p evs. calls (ev p # evs) = p # calls evs"
  shows "firstSuccess call cs s = None \<Longrightarrow> fallback call ev x cs s = (res, t, evs) \<Longrightarrow>
         calls evs = map fst cs"
proof (induction cs arbitrary: s res t evs)
  case Nil
  then show ?case by simp
next
  case (Cons c cs)
  then show ?case
    by (auto simp: ev calls_append calls_limitWarning
             split: prod.splits sum.splits option.splits if_splits)
qed

lemma fallback_calls_success:
  assumes ev: "\<And>p evs. calls (ev p # evs) = p # calls evs"
  shows "firstSuccess call cs s = Some (n, r) \<Longrightarrow> fallback call ev x cs s = (res, t, evs) \<Longrightarrow>
         res = Inr r \<and> calls evs = map fst (take (Suc n) cs)"
proof (induction cs arbitrary: s n res t evs)
  case Nil
  then show ?case by simp
next
  case (Cons c cs)
  show ?case
  proof (cases "call (fst c) s")
    case (Pair out s')
    show ?thesis
    proof (cases out)
      case (Inr r')
      with Pair Cons.prems show ?thesis by (auto simp: ev)
    next
      case (Inl err)
      with Pair Cons.prems(1) obtain k where k: "firstSuccess call cs s' = Some (k, r)" "n = Suc k"
        by (auto split: option.splits)
      then have ne: "cs \<noteq> []" by auto
      obtain res' t' evs' where f: "fallback call ev x cs s' = (res', t', evs')"
        by (cases "fallback call ev x cs s'") auto
      from Cons.IH[OF k(1) f] Cons.prems(2) Pair Inl k(2) ne f show ?thesis
        by (auto simp: ev calls_append calls_limitWarning)
    qed
  qed
qed

lemma evaluateLoop_fallback:
  "i \<le> length ps \<Longrightarrow>
   evaluateLoop A request ps i s =
     fallback (evaluateCall A request) EvaluateCall
       ''Unexpected error: No AI providers available'' (drop i ps) s"
proof (induction A request ps i s rule: evaluateLoop.induct)
  case (1 A request ps i s)
  show ?case
  proof (cases "i < length ps")
    case False
    with 1(2) show ?thesis by (simp add: evaluateLoop.simps)
  next
    case True
    then have d: "drop i ps = ps ! i # drop (Suc i) ps"
      by (simp add: Cons_nth_drop_Suc)
    have e: "(i = length ps - 1) = (drop (Suc i) ps = [])"
      using True by auto
    show ?thesis
    proof (cases "evaluateCall A request (fst (ps ! i)) s")
      case (Pair out s')
      show ?thesis
      proof (cases out)
        case (Inr r)
        with Pair True d show ?thesis
          by (subst evaluateLoop.simps) simp
      next
        case (Inl err)
        show ?thesis
        proof (cases "i = length ps - 1")
          case last: True
          with Pair Inl True d e show ?thesis
            by (subst evaluateLoop.simps) simp
        next
          case notlast: False
          have "evaluateLoop A request ps (i + 1) s' =
                fallback (evaluateCall A request) EvaluateCall
                  ''Unexpected error: No AI providers available'' (drop (i + 1) ps) s'"
            using 1(1)[OF True refl refl _ _ refl notlast] Pair Inl True
            by simp
          with Pair Inl True d e notlast show ?thesis
            by (subst evaluateLoop.simps) simp
        qed
      qed
    qed
  qed
qed

lemma generateLoop_fallback:
  "i \<le> length ps \<Longrightarrow>
   generateLoop A prompt ps i s =
     fallback (generateRawText A prompt) GenerateCall
       ''All AI providers failed for content generation.'' (drop i ps) s"
proof (induction A prompt ps i s rule: generateLoop.induct)
  case (1 A prompt ps i s)
  show ?case
  proof (cases "i < length ps")
    case False
    with 1(2) show ?thesis by (simp add: generateLoop.simps)
  next
    case True
    then have d: "drop i ps = ps ! i # drop (Suc i) ps"
      by (simp add: Cons_nth_drop_Suc)
    have e: "(i = length ps - 1) = (drop (Suc i) ps = [])"
      using True by auto
    show ?thesis
    proof (cases "generateRawText A prompt (fst (ps ! i)) s")
      case (Pair out s')
      show ?thesis
      proof (cases out)
        case (Inr r)
        with Pair True d show ?thesis
          by (subst generateLoop.simps) simp
      next
        case (Inl err)
        show ?thesis
        proof (cases "i = length ps - 1")
          case last: True
          with Pair Inl True d e show ?thesis
            by (subst generateLoop.simps) simp
        next
          case notlast: False
          have "generateLoop A prompt ps (i + 1) s' =
                fallback (generateRawText A prompt) GenerateCall
                  ''All AI providers failed for content generation.'' (drop (i + 1) ps) s'"
            using 1(1)[OF True refl refl _ _ refl notlast] Pair Inl True
            by simp
          with Pair Inl True d e notlast show ?thesis
            by (subst generateLoop.simps) simp
        qed
      qed
    qed
  qed
qed

lemma evaluateLoop_start:
  "evaluateLoop A request ps 0 s =
     fallback (evaluateCall A request) EvaluateCall
       ''Unexpected error: No AI providers available'' ps s"
  using evaluateLoop_fallback[of 0 ps A request s] by simp

lemma generateLoop_start:
  "generateLoop A prompt ps 0 s =
     fallback (generateRawText A prompt) GenerateCall
       ''All AI providers failed for content generation.'' ps s"
  using generateLoop_fallback[of 0 ps A prompt s] by simp

lemma availableProviders_eq:
  "availableProviders s = (if isProviderAvailable Gemini s then [(Gemini, True)] else [])"
  by (simp add: availableProviders_def providerPriority_def hasApiKeys_def
        isProviderAvailable_def mgr_hasApiKeys_def)

lemma evaluateWithBestAvailable_eq:
  "evaluateWithBestAvailable A request s =
     (if isProviderAvailable Gemini s
      then (case evaluateWithGemini A request s of
              (Inr r, s') \<Rightarrow> (Inr r, s', [EvaluateCall Gemini])
            | (Inl err, s') \<Rightarrow>
                (Inl (AllProvidersFailed
                        (''All AI providers failed. Last error: '' @ message err)),
                 s', EvaluateCall Gemini # limitWarning err []))
      else (Inl (NoProvidersAvailable
                   ''No AI providers available. Please add API keys from Groq, OpenAI, or Gemini in Settings.''),
            s, []))"
  by (simp add: evaluateWithBestAvailable_def availableProviders_eq evaluateLoop_start
        split: prod.splits sum.splits)

lemma generateContentWithBestAvailable_eq:
  "generateContentWithBestAvailable A prompt s =
     (if isProviderAvailable Gemini s
      then (case generateRawText A prompt Gemini s of
              (Inr r, s') \<Rightarrow> (Inr r, s', [GenerateCall Gemini])
            | (Inl err, s') \<Rightarrow>
                (Inl (AllProvidersFailed
                        (''All AI providers failed. Last error: '' @ message err)),
                 s', GenerateCall Gemini # limitWarning err []))
      else (Inl (NoProvidersAvailable
                   ''No AI providers available. Please check your API keys configuration.''),
            s, []))"
  by (simp add: generateContentWithBestAvailable_def availableProviders_eq generateLoop_start
        split: prod.splits sum.splits)

lemma firstSuccess_Some:
  "firstSuccess call cs s = Some (n, r) \<Longrightarrow>
   n < length cs \<and> length (attemptErrors call cs s) = n"
proof (induction cs arbitrary: s n)
  case Nil
  then show ?case by simp
next
  case (Cons c cs)
  show ?case
  proof (cases "call (fst c) s")
    case (Pair out s')
    show ?thesis
    proof (cases out)
      case (Inr r')
      with Pair Cons.prems show ?thesis by auto
    next
      case (Inl err)
      with Pair Cons.prems obtain k where k: "firstSuccess call cs s' = Some (k, r)" "n = Suc k"
        by (auto split: option.splits)
      from Cons.IH[OF k(1)] k(2) Pair Inl show ?thesis by simp
    qed
  qed
qed

lemma evaluateWithBestAvailable_loop:
  "availableProviders s \<noteq> [] \<Longrightarrow>
   evaluateWithBestAvailable A request s = evaluateLoop A request (availableProviders s) 0 s"
  by (simp add: evaluateWithBestAvailable_def)

lemma generateContentWithBestAvailable_loop:
  "availableProviders s \<noteq> [] \<Longrightarrow>
   generateContentWithBestAvailable A prompt s = generateLoop A prompt (availableProviders s) 0 s"
  by (simp add: generateContentWithBestAvailable_def)

lemma evaluateLoop_calls_success:
  assumes "firstSuccess (evaluateCall A request) ps s = Some (n, r)"
  shows "fst (evaluateLoop A request ps 0 s) = Inr r \<and>
         calls (snd (snd (evaluateLoop A request ps 0 s))) = map fst (take (Suc n) ps)"
proof -
  obtain res t evs where f: "evaluateLoop A request ps 0 s = (res, t, evs)"
    by (cases "evaluateLoop A request ps 0 s") auto
  then have "fallback (evaluateCall A request) EvaluateCall
               ''Unexpected error: No AI providers available'' ps s = (res, t, evs)"
    by (simp add: evaluateLoop_start)
  from fallback_calls_success[OF _ assms this] f show ?thesis by simp
qed

lemma evaluateLoop_calls_failure:
  assumes "firstSuccess (evaluateCall A request) ps s = None"
  shows "calls (snd (snd (evaluateLoop A request ps 0 s))) = map fst ps"
proof -
  obtain res t evs where f: "evaluateLoop A request ps 0 s = (res, t, evs)"
    by (cases "evaluateLoop A request ps 0 s") auto
  then have "fallback (evaluateCall A request) EvaluateCall
               ''Unexpected error: No AI providers available'' ps s = (res, t, evs)"
    by (simp add: evaluateLoop_start)
  from fallback_calls_failure[OF _ assms this] f show ?thesis by simp
qed

lemma evaluateLoop_all_fail:
  assumes "ps \<noteq> []" "length (attemptErrors (evaluateCall A request) ps s) = length ps"
  shows "fst (evaluateLoop A request ps 0 s) =
           Inl (AllProvidersFailed
                  (''All AI providers failed. Last error: '' @
                   message (last (attemptErrors (evaluateCall A request) ps s))))"
proof -
  obtain res t evs where f: "evaluateLoop A request ps 0 s = (res, t, evs)"
    by (cases "evaluateLoop A request ps 0 s") auto
  then have "fallback (evaluateCall A request) EvaluateCall
               ''Unexpected error: No AI providers available'' ps s = (res, t, evs)"
    by (simp add: evaluateLoop_start)
  from fallback_all_fail[OF assms this] f show ?thesis by simp
qed

lemma attemptErrors_firstSuccess:
  "length (attemptErrors call cs s) = length cs \<Longrightarrow> firstSuccess call cs s = None"
  by (simp add: firstSuccess_None)

lemma evaluateLoop_warnings:
  "warnings (snd (snd (evaluateLoop A request ps 0 s)))
     = expectedWarnings ps (attemptErrors (evaluateCall A request) ps s)"
proof -
  obtain res t evs where f: "evaluateLoop A request ps 0 s = (res, t, evs)"
    by (cases "evaluateLoop A request ps 0 s") auto
  then have "fallback (evaluateCall A request) EvaluateCall
               ''Unexpected error: No AI providers available'' ps s = (res, t, evs)"
    by (simp add: evaluateLoop_start)
  from fallback_warnings[OF _ this] f show ?thesis by simp
qed

lemma generateLoop_warnings:
  "warnings (snd (snd (generateLoop A prompt ps 0 s)))
     = expectedWarnings ps (attemptErrors (generateRawText A prompt) ps s)"
proof -
  obtain res t evs where f: "generateLoop A prompt ps 0 s = (res, t, evs)"
    by (cases "generateLoop A prompt ps 0 s") auto
  then have "fallback (generateRawText A prompt) GenerateCall
               ''All AI providers failed for content generation.'' ps s = (res, t, evs)"
    by (simp add: generateLoop_start)
  from fallback_warnings[OF _ this] f show ?thesis by simp
qed

lemma fallback_same:
  assumes al: "\<forall>p t. outcomeShape (c1 p t) = outcomeShape (c2 p t)"
  shows "fallback c1 GenerateCall x1 cs s = (g, sg, eg) \<Longrightarrow>
         fallback c2 EvaluateCall x2 cs s = (e, se, ee) \<Longrightarrow>
         sameResult g e \<and> sg = se \<and> map asEvaluate eg = ee"
proof (induction cs arbitrary: s g sg eg e se ee)
  case Nil
  then show ?case by auto
next
  case (Cons c cs)
  from al have sh: "outcomeShape (c1 (fst c) s) = outcomeShape (c2 (fst c) s)"
    by blast
  obtain o1 t1 where c1: "c1 (fst c) s = (o1, t1)" by (cases "c1 (fst c) s") auto
  obtain o2 t2 where c2: "c2 (fst c) s = (o2, t2)" by (cases "c2 (fst c) s") auto
  have w: "\<And>err rs. map asEvaluate (limitWarning err rs) = limitWarning err rs"
    by (simp add: limitWarning_def split: option.splits)
  show ?case
  proof (cases o1)
    case (Inr r1)
    with sh c1 c2 obtain r2 where o2: "o2 = Inr r2" and t: "t2 = t1"
      by (cases o2) (auto simp: outcomeShape_def)
    from Cons.prems c1 c2 Inr o2 t show ?thesis by auto
  next
    case (Inl err)
    with sh c1 c2 have o2: "o2 = Inl err" and t: "t2 = t1"
      by (cases o2; auto simp: outcomeShape_def)+
    show ?thesis
    proof (cases "cs = []")
      case True
      with Cons.prems c1 c2 Inl o2 t show ?thesis by (auto simp: w)
    next
      case False
      obtain g' sg' eg' where f1: "fallback c1 GenerateCall x1 cs t1 = (g', sg', eg')"
        by (cases "fallback c1 GenerateCall x1 cs t1") auto
      obtain e' se' ee' where f2: "fallback c2 EvaluateCall x2 cs t1 = (e', se', ee')"
        by (cases "fallback c2 EvaluateCall x2 cs t1") auto
      from Cons.IH[OF f1 f2] Cons.prems c1 c2 Inl o2 t False f1 f2 show ?thesis
        by (auto simp: w)
    qed
  qed
qed









section \<open>Claims\<close>

text \<open>
  C1. For every request, if \<^verbatim>\<open>isProviderAvailable\<close> is false for every provider,
  \<^verbatim>\<open>evaluateWithBestAvailable\<close> fails with the error of the empty candidate list
  (\<^verbatim>\<open>NoProvidersAvailable\<close>), calls no provider client and shows no warning, and
  leaves the registry as it is.
\<close>

theorem no_provider_available_fails_without_call:
  assumes "\<forall>p. \<not> isProviderAvailable p s"
  shows "evaluateWithBestAvailable A request s =
           (Inl (NoProvidersAvailable
                   ''No AI providers available. Please add API keys from Groq, OpenAI, or Gemini in Settings.''),
            s, [])"
  using assms by (simp add: evaluateWithBestAvailable_eq)

theorem no_provider_available_fails_without_call_witness:
  "(\<forall>p. \<not> isProviderAvailable p emptyRegistry) \<and>
   evaluateWithBestAvailable mixedManager ''answer'' emptyRegistry =
     (Inl (NoProvidersAvailable
             ''No AI providers available. Please add API keys from Groq, OpenAI, or Gemini in Settings.''),
      emptyRegistry, [])"
proof -
  have h: "\<forall>p. \<not> isProviderAvailable p emptyRegistry"
    by (simp add: isProviderAvailable_def emptyRegistry_def)
  from no_provider_available_fails_without_call [OF h, of mixedManager "''answer''"] h
  show ?thesis by simp
qed

text \<open>
  C9. The statement after the loop of \<^verbatim>\<open>evaluateWithBestAvailable\<close> is never
  reached: started on any non-empty candidate list the loop ends with a response or with
  the failure of the last candidate, and the entry point as a whole never fails with the
  error of that statement, whatever its message.
\<close>

theorem trailing_throw_unreachable:
  "(ps \<noteq> [] \<longrightarrow> fst (evaluateLoop A request ps 0 s) \<noteq> Inl (LoopExhausted m)) \<and>
   fst (evaluateWithBestAvailable A request s) \<noteq> Inl (LoopExhausted m)"
proof
  show "ps \<noteq> [] \<longrightarrow> fst (evaluateLoop A request ps 0 s) \<noteq> Inl (LoopExhausted m)"
    using fallback_not_exhausted[of ps "evaluateCall A request" EvaluateCall _ s]
    by (cases "evaluateLoop A request ps 0 s") (auto simp: evaluateLoop_start)
  show "fst (evaluateWithBestAvailable A request s) \<noteq> Inl (LoopExhausted m)"
    by (simp add: evaluateWithBestAvailable_eq split: prod.splits sum.splits)
qed

theorem trailing_throw_unreachable_witness:
  "threeCandidates \<noteq> [] \<and>
   fst (evaluateLoop failingManager ''answer'' threeCandidates 0 readyRegistry)
     \<noteq> Inl (LoopExhausted ''Unexpected error: No AI providers available'') \<and>
   fst (evaluateWithBestAvailable failingManager ''answer'' readyRegistry)
     \<noteq> Inl (LoopExhausted ''Unexpected error: No AI providers available'')"
proof -
  have h: "threeCandidates \<noteq> []" by (simp add: threeCandidates_def)
  from trailing_throw_unreachable
         [of threeCandidates failingManager "''answer''" readyRegistry
             "''Unexpected error: No AI providers available''"] h
  show ?thesis by blast
qed

text \<open>
  C4. During one call the candidates are tried in the order of the list, and the first
  success wins: if the attempt at position \<open>n\<close> is the first that succeeds, the \<open>n\<close>
  candidates before it were rejected, the call returns that attempt's response, and the
  provider calls made are exactly those of the first \<open>n + 1\<close> candidates, each once and
  in order, so no later candidate is called and none is called again. If no attempt
  succeeds, the provider calls are those of the whole list, each once and in order. The
  same holds for \<^verbatim>\<open>evaluateWithBestAvailable\<close> on its own candidate list.
\<close>

theorem first_success_wins:
  "(firstSuccess (evaluateCall A request) ps s = Some (n, r) \<longrightarrow>
      n < length ps \<and>
      length (attemptErrors (evaluateCall A request) ps s) = n \<and>
      fst (evaluateLoop A request ps 0 s) = Inr r \<and>
      calls (snd (snd (evaluateLoop A request ps 0 s))) = map fst (take (Suc n) ps)) \<and>
   (firstSuccess (evaluateCall A request) ps s = None \<longrightarrow>
      calls (snd (snd (evaluateLoop A request ps 0 s))) = map fst ps) \<and>
   (firstSuccess (evaluateCall A request) (availableProviders s) s = Some (k, r') \<longrightarrow>
      fst (evaluateWithBestAvailable A request s) = Inr r' \<and>
      calls (snd (snd (evaluateWithBestAvailable A request s)))
        = map fst (take (Suc k) (availableProviders s)))"
proof (intro conjI impI)
  assume a: "firstSuccess (evaluateCall A request) ps s = Some (n, r)"
  from firstSuccess_Some[OF a]
  show "n < length ps" "length (attemptErrors (evaluateCall A request) ps s) = n"
    by simp_all
  from evaluateLoop_calls_success[OF a]
  show "fst (evaluateLoop A request ps 0 s) = Inr r"
    "calls (snd (snd (evaluateLoop A request ps 0 s))) = map fst (take (Suc n) ps)"
    by simp_all
next
  assume "firstSuccess (evaluateCall A request) ps s = None"
  then show "calls (snd (snd (evaluateLoop A request ps 0 s))) = map fst ps"
    by (rule evaluateLoop_calls_failure)
next
  assume a: "firstSuccess (evaluateCall A request) (availableProviders s) s = Some (k, r')"
  then have ne: "availableProviders s \<noteq> []" by auto
  from evaluateLoop_calls_success[OF a] evaluateWithBestAvailable_loop[OF ne, of A request]
  show "fst (evaluateWithBestAvailable A request s) = Inr r'"
    "calls (snd (snd (evaluateWithBestAvailable A request s)))
       = map fst (take (Suc k) (availableProviders s))"
    by simp_all
qed

theorem first_success_wins_witness:
  "firstSuccess (evaluateCall mixedManager ''answer'') threeCandidates readyRegistry
     = Some (2, ''score 7'') \<and>
   (2::nat) < length threeCandidates \<and>
   fst (evaluateLoop mixedManager ''answer'' threeCandidates 0 readyRegistry) = Inr ''score 7'' \<and>
   calls (snd (snd (evaluateLoop mixedManager ''answer'' threeCandidates 0 readyRegistry)))
     = [Groq, OpenAI, Gemini] \<and>
   firstSuccess (evaluateCall failingManager ''answer'') threeCandidates readyRegistry = None \<and>
   calls (snd (snd (evaluateLoop failingManager ''answer'' threeCandidates 0 readyRegistry)))
     = [Groq, OpenAI, Gemini] \<and>
   firstSuccess (evaluateCall mixedManager ''answer'') (availableProviders readyRegistry)
       readyRegistry = Some (0, ''score 7'') \<and>
   fst (evaluateWithBestAvailable mixedManager ''answer'' readyRegistry) = Inr ''score 7'' \<and>
   calls (snd (snd (evaluateWithBestAvailable mixedManager ''answer'' readyRegistry))) = [Gemini]"
proof -
  have h1: "firstSuccess (evaluateCall mixedManager ''answer'') threeCandidates readyRegistry
              = Some (2, ''score 7'')"
    by (simp add: mixedManager_def threeCandidates_def)
  have h2: "firstSuccess (evaluateCall failingManager ''answer'') threeCandidates readyRegistry
              = None"
    by (simp add: failingManager_def threeCandidates_def)
  have av: "availableProviders readyRegistry = [(Gemini, True)]"
    by (simp add: availableProviders_eq isProviderAvailable_def readyRegistry_def)
  have h3: "firstSuccess (evaluateCall mixedManager ''answer'') (availableProviders readyRegistry)
              readyRegistry = Some (0, ''score 7'')"
    by (simp add: av mixedManager_def)
  from first_success_wins
         [of mixedManager "''answer''" threeCandidates readyRegistry 2 "''score 7''" 0 "''score 7''"]
       first_success_wins
         [of failingManager "''answer''" threeCandidates readyRegistry 0 "''x''" 0 "''x''"]
       h1 h2 h3
  show ?thesis
    by (simp add: av threeCandidates_def)
qed

text \<open>
  C3, as stated: the message of the final error equals the message of the last
  provider's error. It does not: with gemini the only candidate and its call rejecting
  with the message \<^verbatim>\<open>timeout\<close>, the call fails with the message
  \<^verbatim>\<open>All AI providers failed. Last error: timeout\<close>.
\<close>

theorem final_message_equals_last_counterexample:
  "last (attemptErrors (evaluateCall failingManager ''answer'')
           (availableProviders readyRegistry) readyRegistry) = timeoutError \<and>
   message timeoutError = ''timeout'' \<and>
   fst (evaluateWithBestAvailable failingManager ''answer'' readyRegistry)
     = Inl (AllProvidersFailed ''All AI providers failed. Last error: timeout'') \<and>
   errorMessage (AllProvidersFailed ''All AI providers failed. Last error: timeout'')
     \<noteq> message timeoutError"
  by (simp add: evaluateWithBestAvailable_eq availableProviders_eq isProviderAvailable_def
        readyRegistry_def failingManager_def timeoutError_def)

text \<open>
  C3, amended. If all \<open>N\<close> candidates of the list fail (\<open>N > 0\<close>), the loop calls each
  candidate exactly once, in the order of the list, and fails with the aggregate error,
  whose message is \<^verbatim>\<open>All AI providers failed. Last error: \<close> followed by the message of
  the \<open>N\<close>th provider's error. The same holds for \<^verbatim>\<open>evaluateWithBestAvailable\<close> on its
  own candidate list.
\<close>

theorem all_candidates_fail_aggregate:
  "(ps \<noteq> [] \<and> length (attemptErrors (evaluateCall A request) ps s) = length ps \<longrightarrow>
      fst (evaluateLoop A request ps 0 s) =
        Inl (AllProvidersFailed
               (''All AI providers failed. Last error: '' @
                message (last (attemptErrors (evaluateCall A request) ps s)))) \<and>
      calls (snd (snd (evaluateLoop A request ps 0 s))) = map fst ps) \<and>
   (availableProviders s \<noteq> [] \<and>
    length (attemptErrors (evaluateCall A request) (availableProviders s) s)
      = length (availableProviders s) \<longrightarrow>
      fst (evaluateWithBestAvailable A request s) =
        Inl (AllProvidersFailed
               (''All AI providers failed. Last error: '' @
                message (last (attemptErrors (evaluateCall A request)
                                 (availableProviders s) s)))) \<and>
      calls (snd (snd (evaluateWithBestAvailable A request s)))
        = map fst (availableProviders s))"
proof (intro conjI impI)
  assume a: "ps \<noteq> [] \<and> length (attemptErrors (evaluateCall A request) ps s) = length ps"
  from a evaluateLoop_all_fail[of ps A request s]
  show "fst (evaluateLoop A request ps 0 s) =
        Inl (AllProvidersFailed
               (''All AI providers failed. Last error: '' @
                message (last (attemptErrors (evaluateCall A request) ps s))))"
    by simp
  from a show "calls (snd (snd (evaluateLoop A request ps 0 s))) = map fst ps"
    by (simp add: evaluateLoop_calls_failure attemptErrors_firstSuccess)
next
  assume a: "availableProviders s \<noteq> [] \<and>
    length (attemptErrors (evaluateCall A request) (availableProviders s) s)
      = length (availableProviders s)"
  then have l: "evaluateWithBestAvailable A request s
                  = evaluateLoop A request (availableProviders s) 0 s"
    by (simp add: evaluateWithBestAvailable_loop)
  from a evaluateLoop_all_fail[of "availableProviders s" A request s]
  show "fst (evaluateWithBestAvailable A request s) =
        Inl (AllProvidersFailed
               (''All AI providers failed. Last error: '' @
                message (last (attemptErrors (evaluateCall A request)
                                 (availableProviders s) s))))"
    by (simp add: l)
  from a show "calls (snd (snd (evaluateWithBestAvailable A request s)))
        = map fst (availableProviders s)"
    by (simp add: l evaluateLoop_calls_failure attemptErrors_firstSuccess)
qed

theorem all_candidates_fail_aggregate_witness:
  "threeCandidates \<noteq> [] \<and>
   attemptErrors (evaluateCall markingManager ''answer'') threeCandidates readyRegistry
     = [quotaError, quotaError, quotaError] \<and>
   length threeCandidates = 3 \<and>
   fst (evaluateLoop markingManager ''answer'' threeCandidates 0 readyRegistry)
     = Inl (AllProvidersFailed ''All AI providers failed. Last error: rate limit'') \<and>
   calls (snd (snd (evaluateLoop markingManager ''answer'' threeCandidates 0 readyRegistry)))
     = [Groq, OpenAI, Gemini] \<and>
   availableProviders readyRegistry = [(Gemini, True)] \<and>
   attemptErrors (evaluateCall failingManager ''answer'') (availableProviders readyRegistry)
       readyRegistry = [timeoutError] \<and>
   fst (evaluateWithBestAvailable failingManager ''answer'' readyRegistry)
     = Inl (AllProvidersFailed ''All AI providers failed. Last error: timeout'') \<and>
   calls (snd (snd (evaluateWithBestAvailable failingManager ''answer'' readyRegistry)))
     = [Gemini]"
proof -
  have h1: "attemptErrors (evaluateCall markingManager ''answer'') threeCandidates readyRegistry
              = [quotaError, quotaError, quotaError]"
    by (simp add: markingManager_def threeCandidates_def)
  have av: "availableProviders readyRegistry = [(Gemini, True)]"
    by (simp add: availableProviders_eq isProviderAvailable_def readyRegistry_def)
  have h2: "attemptErrors (evaluateCall failingManager ''answer'')
              (availableProviders readyRegistry) readyRegistry = [timeoutError]"
    by (simp add: av failingManager_def)
  from all_candidates_fail_aggregate
         [of threeCandidates markingManager "''answer''" readyRegistry]
       all_candidates_fail_aggregate
         [of threeCandidates failingManager "''answer''" readyRegistry]
       h1 h2 av
  show ?thesis
    by (simp add: threeCandidates_def quotaError_def timeoutError_def)
qed

text \<open>
  C6. The limit warnings of a call are exactly the expected ones: for each failed attempt,
  in order, one call of \<^verbatim>\<open>showLimitWarning\<close> if the rejection carries limit
  information, with that information and the names of the candidates not yet attempted,
  in order, and none if it carries no limit information. This holds for both loops on
  any candidate list and for both entry points on their own list.
\<close>

theorem limit_warning_per_limited_failure:
  "warnings (snd (snd (evaluateLoop A request ps 0 s)))
     = expectedWarnings ps (attemptErrors (evaluateCall A request) ps s) \<and>
   warnings (snd (snd (generateLoop A prompt ps 0 s)))
     = expectedWarnings ps (attemptErrors (generateRawText A prompt) ps s) \<and>
   warnings (snd (snd (evaluateWithBestAvailable A request s)))
     = expectedWarnings (availableProviders s)
         (attemptErrors (evaluateCall A request) (availableProviders s) s) \<and>
   warnings (snd (snd (generateContentWithBestAvailable A prompt s)))
     = expectedWarnings (availableProviders s)
         (attemptErrors (generateRawText A prompt) (availableProviders s) s)"
proof (intro conjI)
  show "warnings (snd (snd (evaluateLoop A request ps 0 s)))
     = expectedWarnings ps (attemptErrors (evaluateCall A request) ps s)"
    by (rule evaluateLoop_warnings)
  show "warnings (snd (snd (generateLoop A prompt ps 0 s)))
     = expectedWarnings ps (attemptErrors (generateRawText A prompt) ps s)"
    by (rule generateLoop_warnings)
  show "warnings (snd (snd (evaluateWithBestAvailable A request s)))
     = expectedWarnings (availableProviders s)
         (attemptErrors (evaluateCall A request) (availableProviders s) s)"
  proof (cases "availableProviders s = []")
    case True
    then show ?thesis by (simp add: evaluateWithBestAvailable_def)
  next
    case False
    then show ?thesis
      by (simp add: evaluateWithBestAvailable_loop evaluateLoop_warnings)
  qed
  show "warnings (snd (snd (generateContentWithBestAvailable A prompt s)))
     = expectedWarnings (availableProviders s)
         (attemptErrors (generateRawText A prompt) (availableProviders s) s)"
  proof (cases "availableProviders s = []")
    case True
    then show ?thesis by (simp add: generateContentWithBestAvailable_def)
  next
    case False
    then show ?thesis
      by (simp add: generateContentWithBestAvailable_loop generateLoop_warnings)
  qed
qed

theorem limit_warning_per_limited_failure_witness:
  "attemptErrors (evaluateCall mixedManager ''answer'') threeCandidates readyRegistry
     = [quotaError, timeoutError] \<and>
   limitInfo quotaError = Some quotaInfo \<and> limitInfo timeoutError = None \<and>
   warnings (snd (snd (evaluateLoop mixedManager ''answer'' threeCandidates 0 readyRegistry)))
     = [(quotaInfo, [OpenAI, Gemini])] \<and>
   warnings (snd (snd (generateLoop mixedManager ''prompt'' threeCandidates 0 readyRegistry)))
     = [(quotaInfo, [OpenAI, Gemini])] \<and>
   warnings (snd (snd (evaluateWithBestAvailable markingManager ''answer'' readyRegistry)))
     = [(quotaInfo, [])] \<and>
   warnings (snd (snd (generateContentWithBestAvailable failingManager ''prompt'' readyRegistry)))
     = []"
proof -
  have av: "availableProviders readyRegistry = [(Gemini, True)]"
    by (simp add: availableProviders_eq isProviderAvailable_def readyRegistry_def)
  from limit_warning_per_limited_failure
         [of mixedManager "''answer''" threeCandidates readyRegistry "''prompt''"]
       limit_warning_per_limited_failure
         [of markingManager "''answer''" threeCandidates readyRegistry "''prompt''"]
       limit_warning_per_limited_failure
         [of failingManager "''answer''" threeCandidates readyRegistry "''prompt''"]
  show ?thesis
    by (simp add: av mixedManager_def markingManager_def failingManager_def
          threeCandidates_def quotaError_def timeoutError_def)
qed

text \<open>
  C8. \<^verbatim>\<open>hasApiKeys\<close> and \<^verbatim>\<open>getProviderStatus\<close> return the registry as they found
  it (the failed set, the forced provider and the credentials), and their results are
  computed from that registry: the gemini key flag is the presence of the gemini
  credential, and the status of a provider is its availability, the presence of its
  credential and its membership of the failed set.
\<close>

theorem reads_leave_registry_unchanged:
  "snd (hasApiKeys s) = s \<and>
   snd (getProviderStatus s) = s \<and>
   fst (hasApiKeys s) = \<lparr>gemini = (Gemini \<in> credentials s)\<rparr> \<and>
   fst (getProviderStatus s) p =
     \<lparr>available = (p \<in> credentials s \<and> p \<notin> failedProviders s),
      hasKey = (p \<in> credentials s),
      failed = (p \<in> failedProviders s)\<rparr> \<and>
   fst (hasApiKeys (snd (getProviderStatus (snd (hasApiKeys s))))) = fst (hasApiKeys s) \<and>
   fst (getProviderStatus (markFailed p s)) p =
     \<lparr>available = False, hasKey = (p \<in> credentials s), failed = True\<rparr> \<and>
   fst (getProviderStatus (resetFailedProviders s)) p =
     \<lparr>available = (p \<in> credentials s), hasKey = (p \<in> credentials s), failed = False\<rparr>"
  by (simp add: hasApiKeys_def getProviderStatus_def mgr_getProviderStatus_def
        mgr_hasApiKeys_def isProviderAvailable_def markFailed_def resetFailedProviders_def
        mgr_resetFailedProviders_def)

text \<open>
  C7. \<^verbatim>\<open>generateContentWithBestAvailable\<close> follows the algorithm of
  \<^verbatim>\<open>evaluateWithBestAvailable\<close>: whenever the raw-text call of each provider does what
  its evaluation call does (the same rejection and registry, or a success), the two
  loops on any candidate list, and the two entry points, end in the same kind of result
  (a success, the empty-list failure, or the aggregate failure with the same message),
  leave the same registry, and produce the same events, provider call for provider call
  and warning for warning.
\<close>

theorem generate_follows_evaluate:
  assumes "\<forall>p t. outcomeShape (generateRawText A prompt p t)
                  = outcomeShape (evaluateCall A request p t)"
  shows "sameResult (fst (generateLoop A prompt ps 0 s)) (fst (evaluateLoop A request ps 0 s)) \<and>
         fst (snd (generateLoop A prompt ps 0 s)) = fst (snd (evaluateLoop A request ps 0 s)) \<and>
         map asEvaluate (snd (snd (generateLoop A prompt ps 0 s)))
           = snd (snd (evaluateLoop A request ps 0 s)) \<and>
         sameResult (fst (generateContentWithBestAvailable A prompt s))
           (fst (evaluateWithBestAvailable A request s)) \<and>
         fst (snd (generateContentWithBestAvailable A prompt s))
           = fst (snd (evaluateWithBestAvailable A request s)) \<and>
         map asEvaluate (snd (snd (generateContentWithBestAvailable A prompt s)))
           = snd (snd (evaluateWithBestAvailable A request s))"
proof -
  have loop: "sameResult (fst (generateLoop A prompt qs 0 s)) (fst (evaluateLoop A request qs 0 s)) \<and>
         fst (snd (generateLoop A prompt qs 0 s)) = fst (snd (evaluateLoop A request qs 0 s)) \<and>
         map asEvaluate (snd (snd (generateLoop A prompt qs 0 s)))
           = snd (snd (evaluateLoop A request qs 0 s))" for qs
  proof -
    obtain g sg eg where f1: "generateLoop A prompt qs 0 s = (g, sg, eg)"
      by (cases "generateLoop A prompt qs 0 s") auto
    obtain e se ee where f2: "evaluateLoop A request qs 0 s = (e, se, ee)"
      by (cases "evaluateLoop A request qs 0 s") auto
    from f1 have g1: "fallback (generateRawText A prompt) GenerateCall
        ''All AI providers failed for content generation.'' qs s = (g, sg, eg)"
      by (simp add: generateLoop_start)
    from f2 have g2: "fallback (evaluateCall A request) EvaluateCall
        ''Unexpected error: No AI providers available'' qs s = (e, se, ee)"
      by (simp add: evaluateLoop_start)
    from fallback_same[OF assms g1 g2] f1 f2 show ?thesis by simp
  qed
  show ?thesis
  proof (cases "availableProviders s = []")
    case True
    with loop[of ps] show ?thesis
      by (simp add: generateContentWithBestAvailable_def evaluateWithBestAvailable_def)
  next
    case False
    with loop[of ps] loop[of "availableProviders s"] show ?thesis
      by (simp add: generateContentWithBestAvailable_loop evaluateWithBestAvailable_loop)
  qed
qed

theorem generate_follows_evaluate_witness:
  "(\<forall>p t. outcomeShape (generateRawText mixedManager ''prompt'' p t)
            = outcomeShape (evaluateCall mixedManager ''answer'' p t)) \<and>
   generateLoop mixedManager ''prompt'' threeCandidates 0 readyRegistry
     = (Inr ''text'', readyRegistry,
        [GenerateCall Groq, ShowLimitWarning quotaInfo [OpenAI, Gemini],
         GenerateCall OpenAI, GenerateCall Gemini]) \<and>
   evaluateLoop mixedManager ''answer'' threeCandidates 0 readyRegistry
     = (Inr ''score 7'', readyRegistry,
        [EvaluateCall Groq, ShowLimitWarning quotaInfo [OpenAI, Gemini],
         EvaluateCall OpenAI, EvaluateCall Gemini]) \<and>
   sameResult (fst (generateContentWithBestAvailable mixedManager ''prompt'' emptyRegistry))
     (fst (evaluateWithBestAvailable mixedManager ''answer'' emptyRegistry)) \<and>
   map asEvaluate (snd (snd (generateContentWithBestAvailable mixedManager ''prompt'' readyRegistry)))
     = snd (snd (evaluateWithBestAvailable mixedManager ''answer'' readyRegistry))"
proof -
  have h: "\<forall>p t. outcomeShape (generateRawText mixedManager ''prompt'' p t)
            = outcomeShape (evaluateCall mixedManager ''answer'' p t)"
  proof (intro allI)
    fix p t
    show "outcomeShape (generateRawText mixedManager ''prompt'' p t)
            = outcomeShape (evaluateCall mixedManager ''answer'' p t)"
      by (cases p) (simp_all add: outcomeShape_def mixedManager_def)
  qed
  have g: "generateLoop mixedManager ''prompt'' threeCandidates 0 readyRegistry
     = (Inr ''text'', readyRegistry,
        [GenerateCall Groq, ShowLimitWarning quotaInfo [OpenAI, Gemini],
         GenerateCall OpenAI, GenerateCall Gemini])"
    by (simp add: generateLoop_start mixedManager_def threeCandidates_def limitWarning_def
          quotaError_def timeoutError_def)
  have e: "evaluateLoop mixedManager ''answer'' threeCandidates 0 readyRegistry
     = (Inr ''score 7'', readyRegistry,
        [EvaluateCall Groq, ShowLimitWarning quotaInfo [OpenAI, Gemini],
         EvaluateCall OpenAI, EvaluateCall Gemini])"
    by (simp add: evaluateLoop_start mixedManager_def threeCandidates_def limitWarning_def
          quotaError_def timeoutError_def)
  from generate_follows_evaluate
         [OF h, of threeCandidates readyRegistry]
       generate_follows_evaluate
         [OF h, of threeCandidates emptyRegistry]
       h g e
  show ?thesis by simp
qed

text \<open>
  C10. In both entry points the candidate list is empty or holds gemini alone. So every
  limit warning of a call names no remaining provider, a call makes at most one provider
  call, and when that call of gemini is rejected the entry point fails at once with the
  aggregate error built from that rejection.
\<close>

theorem single_candidate_gemini:
  "(map fst (availableProviders s) = [] \<or> map fst (availableProviders s) = [Gemini]) \<and>
   (\<forall>w \<in> set (warnings (snd (snd (evaluateWithBestAvailable A request s)))). snd w = []) \<and>
   (\<forall>w \<in> set (warnings (snd (snd (generateContentWithBestAvailable A prompt s)))). snd w = []) \<and>
   length (calls (snd (snd (evaluateWithBestAvailable A request s)))) \<le> 1 \<and>
   length (calls (snd (snd (generateContentWithBestAvailable A prompt s)))) \<le> 1 \<and>
   (isProviderAvailable Gemini s \<and> fst (evaluateWithGemini A request s) = Inl err \<longrightarrow>
      fst (evaluateWithBestAvailable A request s) =
        Inl (AllProvidersFailed (''All AI providers failed. Last error: '' @ message err))) \<and>
   (isProviderAvailable Gemini s \<and> fst (generateRawText A prompt Gemini s) = Inl err' \<longrightarrow>
      fst (generateContentWithBestAvailable A prompt s) =
        Inl (AllProvidersFailed (''All AI providers failed. Last error: '' @ message err')))"
proof (intro conjI)
  show "map fst (availableProviders s) = [] \<or> map fst (availableProviders s) = [Gemini]"
    by (simp add: availableProviders_eq)
  show "\<forall>w \<in> set (warnings (snd (snd (evaluateWithBestAvailable A request s)))). snd w = []"
    by (auto simp: evaluateWithBestAvailable_eq warnings_limitWarning
             split: prod.splits sum.splits option.splits if_splits)
  show "\<forall>w \<in> set (warnings (snd (snd (generateContentWithBestAvailable A prompt s)))). snd w = []"
    by (auto simp: generateContentWithBestAvailable_eq warnings_limitWarning
             split: prod.splits sum.splits option.splits if_splits)
  show "length (calls (snd (snd (evaluateWithBestAvailable A request s)))) \<le> 1"
    by (simp add: evaluateWithBestAvailable_eq calls_limitWarning split: prod.splits sum.splits)
  show "length (calls (snd (snd (generateContentWithBestAvailable A prompt s)))) \<le> 1"
    by (simp add: generateContentWithBestAvailable_eq calls_limitWarning
          split: prod.splits sum.splits)
  show "isProviderAvailable Gemini s \<and> fst (evaluateWithGemini A request s) = Inl err \<longrightarrow>
      fst (evaluateWithBestAvailable A request s) =
        Inl (AllProvidersFailed (''All AI providers failed. Last error: '' @ message err))"
    by (auto simp: evaluateWithBestAvailable_eq split: prod.splits sum.splits)
  show "isProviderAvailable Gemini s \<and> fst (generateRawText A prompt Gemini s) = Inl err' \<longrightarrow>
      fst (generateContentWithBestAvailable A prompt s) =
        Inl (AllProvidersFailed (''All AI providers failed. Last error: '' @ message err'))"
    by (auto simp: generateContentWithBestAvailable_eq split: prod.splits sum.splits)
qed

theorem single_candidate_gemini_witness:
  "map fst (availableProviders readyRegistry) = [Gemini] \<and>
   isProviderAvailable Gemini readyRegistry \<and>
   fst (evaluateWithGemini markingManager ''answer'' readyRegistry) = Inl quotaError \<and>
   fst (generateRawText markingManager ''prompt'' Gemini readyRegistry) = Inl quotaError \<and>
   warnings (snd (snd (evaluateWithBestAvailable markingManager ''answer'' readyRegistry)))
     = [(quotaInfo, [])] \<and>
   warnings (snd (snd (generateContentWithBestAvailable markingManager ''prompt'' readyRegistry)))
     = [(quotaInfo, [])] \<and>
   fst (evaluateWithBestAvailable markingManager ''answer'' readyRegistry)
     = Inl (AllProvidersFailed ''All AI providers failed. Last error: rate limit'') \<and>
   fst (generateContentWithBestAvailable markingManager ''prompt'' readyRegistry)
     = Inl (AllProvidersFailed ''All AI providers failed. Last error: rate limit'')"
proof -
  have a: "isProviderAvailable Gemini readyRegistry"
    by (simp add: isProviderAvailable_def readyRegistry_def)
  have e: "fst (evaluateWithGemini markingManager ''answer'' readyRegistry) = Inl quotaError"
    by (simp add: markingManager_def)
  have g: "fst (generateRawText markingManager ''prompt'' Gemini readyRegistry) = Inl quotaError"
    by (simp add: markingManager_def)
  have w1: "warnings (snd (snd (evaluateWithBestAvailable markingManager ''answer'' readyRegistry)))
     = [(quotaInfo, [])]"
    by (simp add: evaluateWithBestAvailable_eq a markingManager_def warnings_limitWarning
          quotaError_def)
  have w2: "warnings (snd (snd (generateContentWithBestAvailable markingManager ''prompt''
                                  readyRegistry))) = [(quotaInfo, [])]"
    by (simp add: generateContentWithBestAvailable_eq a markingManager_def warnings_limitWarning
          quotaError_def)
  from single_candidate_gemini
         [of readyRegistry markingManager "''answer''" "''prompt''" quotaError quotaError]
       a e g w1 w2
  show ?thesis
    by (simp add: availableProviders_eq quotaError_def)
qed



text \<open>
  C2. Once \<^verbatim>\<open>forceProvider\<close> has set an identity \<open>p\<close> as forced, that identity is
  gemini, the candidate list of the next call is \<open>[p]\<close> if \<open>p\<close> is available and empty
  otherwise, and the provider calls of \<^verbatim>\<open>evaluateWithBestAvailable\<close> are the single
  call of \<open>p\<close> if it is available and none otherwise. With \<open>p\<close> available the call is
  the evaluation by gemini and nothing else: its result, registry and events are those
  of \<^verbatim>\<open>evaluateWithGemini\<close>, so two managers with the same \<^verbatim>\<open>evaluateWithGemini\<close>
  give the same call whatever their other provider calls do. With \<open>p\<close> unavailable the
  call fails as with no provider available.
\<close>

theorem forced_provider_only_candidate:
  assumes "forcedIdentity a = Identity p"
  shows "forcedProvider (forceProvider a s) = Some p \<and>
         map fst (availableProviders (forceProvider a s))
           = (if isProviderAvailable p (forceProvider a s) then [p] else []) \<and>
         calls (snd (snd (evaluateWithBestAvailable A request (forceProvider a s))))
           = (if isProviderAvailable p (forceProvider a s) then [p] else []) \<and>
         (\<not> isProviderAvailable p (forceProvider a s) \<longrightarrow>
            evaluateWithBestAvailable A request (forceProvider a s) =
              (Inl (NoProvidersAvailable
                      ''No AI providers available. Please add API keys from Groq, OpenAI, or Gemini in Settings.''),
               forceProvider a s, [])) \<and>
         p = Gemini \<and>
         (isProviderAvailable p (forceProvider a s) \<longrightarrow>
            evaluateWithBestAvailable A request (forceProvider a s) =
              (case evaluateWithGemini A request (forceProvider a s) of
                 (Inr response, t) \<Rightarrow> (Inr response, t, [EvaluateCall Gemini])
               | (Inl err, t) \<Rightarrow>
                   (Inl (AllProvidersFailed
                           (''All AI providers failed. Last error: '' @ message err)),
                    t,
                    EvaluateCall Gemini #
                      (case limitInfo err of
                         Some li \<Rightarrow> [ShowLimitWarning li []]
                       | None \<Rightarrow> [])))) \<and>
         (evaluateWithGemini B request = evaluateWithGemini A request \<longrightarrow>
            evaluateWithBestAvailable B request (forceProvider a s)
              = evaluateWithBestAvailable A request (forceProvider a s))"
proof -
  from assms have a: "a = ForceGemini" and p: "p = Gemini"
    by (cases a; simp)+
  show ?thesis
    unfolding a p
    by (simp add: forceProvider_def availableProviders_eq evaluateWithBestAvailable_eq
          calls_limitWarning limitWarning_def split: prod.splits sum.splits option.splits)
qed

theorem forced_provider_only_candidate_witness:
  "forcedIdentity ForceGemini = Identity Gemini \<and>
   \<not> isProviderAvailable Gemini (forceProvider ForceGemini emptyRegistry) \<and>
   map fst (availableProviders (forceProvider ForceGemini emptyRegistry)) = [] \<and>
   evaluateWithBestAvailable mixedManager ''answer'' (forceProvider ForceGemini emptyRegistry) =
     (Inl (NoProvidersAvailable
             ''No AI providers available. Please add API keys from Groq, OpenAI, or Gemini in Settings.''),
      forceProvider ForceGemini emptyRegistry, []) \<and>
   isProviderAvailable Gemini (forceProvider ForceGemini readyRegistry) \<and>
   forcedProvider (forceProvider ForceGemini readyRegistry) = Some Gemini \<and>
   map fst (availableProviders (forceProvider ForceGemini readyRegistry)) = [Gemini] \<and>
   calls (snd (snd (evaluateWithBestAvailable mixedManager ''answer''
                      (forceProvider ForceGemini readyRegistry)))) = [Gemini] \<and>
   evaluateWithBestAvailable mixedManager ''answer'' (forceProvider ForceGemini readyRegistry)
     = (Inr ''score 7'', forceProvider ForceGemini readyRegistry, [EvaluateCall Gemini]) \<and>
   evaluateWithGemini otherManager ''answer'' = evaluateWithGemini mixedManager ''answer'' \<and>
   evaluateWithGroq otherManager ''answer'' readyRegistry
     \<noteq> evaluateWithGroq mixedManager ''answer'' readyRegistry \<and>
   evaluateWithBestAvailable otherManager ''answer'' (forceProvider ForceGemini readyRegistry)
     = evaluateWithBestAvailable mixedManager ''answer'' (forceProvider ForceGemini readyRegistry) \<and>
   evaluateWithBestAvailable markingManager ''answer'' (forceProvider ForceGemini readyRegistry)
     = (Inl (AllProvidersFailed ''All AI providers failed. Last error: rate limit''),
        markFailed Gemini (forceProvider ForceGemini readyRegistry),
        [EvaluateCall Gemini, ShowLimitWarning quotaInfo []])"
proof -
  have h: "forcedIdentity ForceGemini = Identity Gemini" by simp
  have u: "\<not> isProviderAvailable Gemini (forceProvider ForceGemini emptyRegistry)"
    by (simp add: isProviderAvailable_def forceProvider_def emptyRegistry_def)
  have v: "isProviderAvailable Gemini (forceProvider ForceGemini readyRegistry)"
    by (simp add: isProviderAvailable_def forceProvider_def readyRegistry_def)
  have g: "evaluateWithGemini otherManager ''answer'' = evaluateWithGemini mixedManager ''answer''"
    by (simp add: otherManager_def mixedManager_def)
  have d: "evaluateWithGroq otherManager ''answer'' readyRegistry
     \<noteq> evaluateWithGroq mixedManager ''answer'' readyRegistry"
    by (simp add: otherManager_def mixedManager_def)
  have m: "evaluateWithGemini mixedManager ''answer'' (forceProvider ForceGemini readyRegistry)
             = (Inr ''score 7'', forceProvider ForceGemini readyRegistry)"
    by (simp add: mixedManager_def)
  have k: "evaluateWithGemini markingManager ''answer'' (forceProvider ForceGemini readyRegistry)
             = (Inl quotaError, markFailed Gemini (forceProvider ForceGemini readyRegistry))"
    by (simp add: markingManager_def)
  from forced_provider_only_candidate
         [OF h, of emptyRegistry mixedManager "''answer''" otherManager]
       forced_provider_only_candidate
         [OF h, of readyRegistry mixedManager "''answer''" otherManager]
       forced_provider_only_candidate
         [OF h, of readyRegistry markingManager "''answer''" otherManager]
       u v g d m k
  show ?thesis
    by (simp add: quotaError_def)
qed

end
